theory Spec2Isabelle
  imports Complex_Main "HOL-Library.Multiset" "HOL-Library.Sublist"
    "HOL-Library.Char_ord" "HOL-Library.List_Lexorder"
begin

section \<open>Data model\<close>

text \<open>
  A pandas float cell is either a number or NaN (which is also what a Python \<open>None\<close>
  becomes in a float column). It is modelled as \<open>rat option\<close>, \<open>None\<close> being NaN:
  every finite float is a rational, and the thresholds the code compares with
  (0, 1, 5, 10, 15, 20, 25, 35, -10) are floats themselves, so the comparisons are exact.
  Rounding inside float arithmetic (\<open>* 100\<close>, the weighted sum, the means) and the
  infinities are not modelled: arithmetic here is exact rational arithmetic.
\<close>

type_synonym num = "rat option"

definition isna :: "num \<Rightarrow> bool" where
  "isna x = (x = None)"

text \<open>Comparisons of a float cell with a number: every comparison with NaN is false.\<close>

definition num_lt :: "num \<Rightarrow> rat \<Rightarrow> bool" where
  "num_lt x c = (case x of None \<Rightarrow> False | Some v \<Rightarrow> v < c)"

definition num_le :: "num \<Rightarrow> rat \<Rightarrow> bool" where
  "num_le x c = (case x of None \<Rightarrow> False | Some v \<Rightarrow> v \<le> c)"

definition num_gt :: "num \<Rightarrow> rat \<Rightarrow> bool" where
  "num_gt x c = (case x of None \<Rightarrow> False | Some v \<Rightarrow> v > c)"


text \<open>
  One row of the dataset: the dictionary built by \<open>get_stock_details_yfinance\<close>
  (stock_data.py, lines 72 to 85), field by field. \<open>symbol\<close> is always a string and
  \<open>volume\<close> always an integer (\<open>int(volume)\<close>); a text cell read from the provider
  may be \<open>None\<close>.
\<close>

record stock =
  symbol :: string
  companyName :: "string option"
  currentPrice :: num
  volume :: int
  marketCap :: num
  pe_ratio :: num
  pb_ratio :: num
  roe :: num
  profit_margin :: num
  momentum_30d :: num
  sector :: "string option"
  industry :: "string option"

text \<open>A scored row: the five columns \<open>calculate_overall_score\<close> adds.\<close>

record scored = stock +
  pe_score :: int
  volume_score :: int
  momentum_score :: int
  profit_score :: int
  overall_score :: rat

section \<open>Scoring engine (stock_analyzer.py)\<close>

text \<open>\<open>StockAnalyzer.__init__\<close>: the weights, a dictionary keyed by the score's name.\<close>

definition scoring_weights :: "(string \<times> rat) list" where
  "scoring_weights =
     [(''pe_score'', 25 / 100),
      (''volume_score'', 20 / 100),
      (''momentum_score'', 25 / 100),
      (''profit_score'', 30 / 100)]"

text \<open>
  \<open>self.scoring_weights[k]\<close>. The four keys \<open>calculate_overall_score\<close> reads are all
  in the dictionary, so Python's KeyError is never raised there; the model gives 0
  for any other key.
\<close>

definition weight :: "string \<Rightarrow> rat" where
  "weight k = (case map_of scoring_weights k of Some w \<Rightarrow> w | None \<Rightarrow> 0)"

subsection \<open>PE score\<close>

text \<open>The body of the loop of \<open>calculate_pe_score\<close>, for one cell of \<open>pe_ratio\<close>.\<close>

definition pe_score_of :: "num \<Rightarrow> int" where
  "pe_score_of pe =
     (if num_le pe 0 \<or> isna pe then 1
      else if num_lt pe 15 then 10
      else if num_lt pe 25 then 8
      else if num_lt pe 35 then 5
      else 2)"

definition calculate_pe_score :: "('a stock_scheme) list \<Rightarrow> int list" where
  "calculate_pe_score df = map pe_score_of (map pe_ratio df)"

subsection \<open>Volume score\<close>

text \<open>
  The \<open>volume\<close> column is an int64 column; \<open>sum()\<close> adds in 64-bit two's complement.
\<close>

definition int64_wrap :: "int \<Rightarrow> int" where
  "int64_wrap i = (i + 2 ^ 63) mod 2 ^ 64 - 2 ^ 63"

definition volume_sum :: "int list \<Rightarrow> int" where
  "volume_sum vs = int64_wrap (sum_list vs)"

text \<open>
  \<open>Series.rank(pct=True)\<close> with pandas' default \<open>method='average'\<close>: the values are
  ranked from 1 in ascending order, tied values all get the mean of the positions
  they occupy, and the rank is divided by the number of values. A value with \<open>l\<close>
  values below it and \<open>e\<close> values equal to it (itself included) occupies one of the
  positions \<open>l + 1, ..., l + e\<close>, whose mean is \<open>l + (e + 1) / 2\<close>.
\<close>

definition rank_average :: "int list \<Rightarrow> int \<Rightarrow> rat" where
  "rank_average vs v =
     of_nat (length (filter (\<lambda>w. w < v) vs))
       + (of_nat (length (filter (\<lambda>w. w = v) vs)) + 1) / 2"

definition rank_pct :: "int list \<Rightarrow> rat list" where
  "rank_pct vs = map (\<lambda>v. rank_average vs v / of_nat (length vs)) vs"

text \<open>The body of the loop of \<open>calculate_volume_score\<close>, for one percentile.\<close>

definition volume_score_of :: "rat \<Rightarrow> int" where
  "volume_score_of percentile =
     (if percentile \<ge> 8 / 10 then 10
      else if percentile \<ge> 6 / 10 then 8
      else if percentile \<ge> 4 / 10 then 6
      else if percentile \<ge> 2 / 10 then 4
      else 2)"

definition calculate_volume_score :: "('a stock_scheme) list \<Rightarrow> int list" where
  "calculate_volume_score df =
     (if volume_sum (map volume df) = 0 then replicate (length df) 5
      else map volume_score_of (rank_pct (map volume df)))"

subsection \<open>Momentum score\<close>

definition momentum_score_of :: "num \<Rightarrow> int" where
  "momentum_score_of momentum =
     (if isna momentum then 5
      else if num_gt momentum 20 then 10
      else if num_gt momentum 10 then 8
      else if num_gt momentum 0 then 6
      else if num_gt momentum (- 10) then 4
      else 2)"

definition calculate_momentum_score :: "('a stock_scheme) list \<Rightarrow> int list" where
  "calculate_momentum_score df = map momentum_score_of (map momentum_30d df)"

subsection \<open>Profit score\<close>

text \<open>
  The body of the loop of \<open>calculate_profit_score\<close>, in the source's order: missing
  values become 0, a value below 1 is multiplied by 100, then the two buckets are added.
\<close>

definition margin_points :: "rat \<Rightarrow> int" where
  "margin_points margin =
     (if margin > 20 then 5
      else if margin > 10 then 4
      else if margin > 5 then 3
      else if margin > 0 then 2
      else 1)"

definition roe_points :: "rat \<Rightarrow> int" where
  "roe_points equity =
     (if equity > 20 then 5
      else if equity > 15 then 4
      else if equity > 10 then 3
      else if equity > 5 then 2
      else 1)"

definition profit_score_of :: "num \<Rightarrow> num \<Rightarrow> int" where
  "profit_score_of pm0 roe0 =
     (let pm1 = (case pm0 of None \<Rightarrow> 0 | Some x \<Rightarrow> x);
          roe1 = (case roe0 of None \<Rightarrow> 0 | Some x \<Rightarrow> x);
          pm2 = (if pm1 < 1 then pm1 * 100 else pm1);
          roe2 = (if roe1 < 1 then roe1 * 100 else roe1)
      in 0 + margin_points pm2 + roe_points roe2)"

definition calculate_profit_score :: "('a stock_scheme) list \<Rightarrow> int list" where
  "calculate_profit_score df = map (\<lambda>row. profit_score_of (profit_margin row) (roe row)) df"

subsection \<open>Overall score\<close>

text \<open>
  \<open>Series.round(2)\<close>: numpy rounds to the nearest multiple of 1/100, a value half way
  between two of them to the even one.
\<close>

definition round_half_even :: "rat \<Rightarrow> int" where
  "round_half_even x =
     (let f = \<lfloor>x\<rfloor>; d = x - of_int f
      in if d < 1 / 2 then f
         else if d > 1 / 2 then f + 1
         else if even f then f else f + 1)"

definition round2 :: "rat \<Rightarrow> rat" where
  "round2 x = of_int (round_half_even (x * 100)) / 100"

definition weighted_sum :: "int \<Rightarrow> int \<Rightarrow> int \<Rightarrow> int \<Rightarrow> rat" where
  "weighted_sum pe vol mom pro =
     of_int pe * weight ''pe_score''
       + of_int vol * weight ''volume_score''
       + of_int mom * weight ''momentum_score''
       + of_int pro * weight ''profit_score''"

text \<open>One row of the frame after the five column assignments.\<close>

definition with_scores :: "'a stock_scheme \<Rightarrow> int \<Rightarrow> int \<Rightarrow> int \<Rightarrow> int \<Rightarrow> scored" where
  "with_scores r pe vol mom pro =
     \<lparr>symbol = symbol r, companyName = companyName r, currentPrice = currentPrice r,
      volume = volume r, marketCap = marketCap r, pe_ratio = pe_ratio r,
      pb_ratio = pb_ratio r, roe = roe r, profit_margin = profit_margin r,
      momentum_30d = momentum_30d r, sector = sector r, industry = industry r,
      pe_score = pe, volume_score = vol, momentum_score = mom, profit_score = pro,
      overall_score = round2 (weighted_sum pe vol mom pro)\<rparr>"

text \<open>
  \<open>calculate_overall_score\<close>. The source assigns the four score columns to the frame
  one after the other and then the weighted, rounded sum; each score function reads
  unscored columns only, so the four are computed here from the frame as it came in.
  A column assignment writes over a column of that name when the frame has one, so
  whatever the incoming rows carry beyond the unscored fields is not kept.
  The frame carries the default index 0, 1, ..., as a frame built by
  \<open>get_multiple_stocks_data\<close> does, so that row \<open>i\<close> gets the \<open>i\<close>-th score.
\<close>

definition calculate_overall_score :: "('a stock_scheme) list \<Rightarrow> scored list" where
  "calculate_overall_score df =
     (let pe = calculate_pe_score df;
          vol = calculate_volume_score df;
          mom = calculate_momentum_score df;
          pro = calculate_profit_score df
      in map (\<lambda>i. with_scores (df ! i) (pe ! i) (vol ! i) (mom ! i) (pro ! i))
           [0 ..< length df])"

text \<open>The unscored fields of a row, whatever else the row carries.\<close>

definition unscored :: "'a stock_scheme \<Rightarrow> stock" where
  "unscored r =
     \<lparr>symbol = symbol r, companyName = companyName r, currentPrice = currentPrice r,
      volume = volume r, marketCap = marketCap r, pe_ratio = pe_ratio r,
      pb_ratio = pb_ratio r, roe = roe r, profit_margin = profit_margin r,
      momentum_30d = momentum_30d r, sector = sector r, industry = industry r\<rparr>"

subsection \<open>Columns of a scored frame\<close>






subsection \<open>Top N\<close>




subsection \<open>Filter by criteria\<close>



subsection \<open>Sector analysis\<close>









section \<open>Data fetcher (stock_data.py)\<close>















section \<open>Example frames\<close>

text \<open>A row with every number 0 and the texts a provider without information gives.\<close>

definition plain_row :: "string \<Rightarrow> stock" where
  "plain_row s =
     \<lparr>symbol = s, companyName = Some s, currentPrice = Some 0,
      volume = 0, marketCap = Some 0, pe_ratio = Some 0,
      pb_ratio = Some 0, roe = Some 0, profit_margin = Some 0,
      momentum_30d = Some 0, sector = Some ''Unknown'', industry = Some ''Unknown''\<rparr>"

text \<open>Nine rows that differ in \<open>pe_ratio\<close> only: NaN, -3, 0, 10, 15, 24, 25, 35, 100.\<close>

definition pe_rows :: "stock list" where
  "pe_rows =
     map (\<lambda>p. (plain_row ''X'')\<lparr>pe_ratio := p\<rparr>)
       [None, Some (- 3), Some 0, Some 10, Some 15, Some 24, Some 25, Some 35, Some 100]"

text \<open>One row that earns the highest score in each of the four parts.\<close>

definition best_frame :: "stock list" where
  "best_frame =
     [(plain_row ''BEST'')\<lparr>volume := 1000, pe_ratio := Some 12, momentum_30d := Some 25,
        profit_margin := Some (3 / 10), roe := Some (1 / 4)\<rparr>]"

text \<open>Two rows with the same volume, 100.\<close>

definition two_equal_volumes :: "stock list" where
  "two_equal_volumes = [(plain_row ''A'')\<lparr>volume := 100\<rparr>, (plain_row ''B'')\<lparr>volume := 100\<rparr>]"

text \<open>Six rows with the same volume, 100.\<close>

definition six_equal_volumes :: "stock list" where
  "six_equal_volumes =
     map (\<lambda>s. (plain_row s)\<lparr>volume := 100\<rparr>) [''A'', ''B'', ''C'', ''D'', ''E'', ''F'']"

text \<open>Three rows: a strong one, a middling one, and one with every optional cell missing.\<close>

definition mixed_frame :: "stock list" where
  "mixed_frame =
     [(plain_row ''AAA'')\<lparr>volume := 1000, pe_ratio := Some 12, momentum_30d := Some 25,
        profit_margin := Some (3 / 10), roe := Some (1 / 4), sector := Some ''Technology''\<rparr>,
      (plain_row ''BBB'')\<lparr>volume := 500, pe_ratio := Some 30, momentum_30d := Some (- 5),
        profit_margin := Some (8 / 100), roe := Some (12 / 100), sector := Some ''Energy''\<rparr>,
      (plain_row ''CCC'')\<lparr>volume := 500, pe_ratio := None, momentum_30d := None,
        profit_margin := None, roe := None, sector := None\<rparr>]"

text \<open>The rows of \<open>mixed_frame\<close> carrying scores that are all 0, as if left over.\<close>

definition stale_frame :: "scored list" where
  "stale_frame =
     map (\<lambda>r. \<lparr>symbol = symbol r, companyName = companyName r, currentPrice = currentPrice r,
                volume = volume r, marketCap = marketCap r, pe_ratio = pe_ratio r,
                pb_ratio = pb_ratio r, roe = roe r, profit_margin = profit_margin r,
                momentum_30d = momentum_30d r, sector = sector r, industry = industry r,
                pe_score = 0, volume_score = 0, momentum_score = 0, profit_score = 0,
                overall_score = 0\<rparr>) mixed_frame"











section \<open>Properties of the scoring engine\<close>

subsection \<open>Helper facts\<close>

lemma weight_values:
  "weight ''pe_score'' = 1 / 4" "weight ''volume_score'' = 1 / 5"
  "weight ''momentum_score'' = 1 / 4" "weight ''profit_score'' = 3 / 10"
  by (simp_all add: weight_def scoring_weights_def)

lemma weighted_sum_hundredths:
  "weighted_sum a b c d = of_int (25 * a + 20 * b + 25 * c + 30 * d) / 100"
  by (simp add: weighted_sum_def weight_values field_simps)

lemma round_half_even_of_int: "round_half_even (of_int k) = k"
  by (simp add: round_half_even_def)

lemma round2_hundredths: "round2 (of_int k / 100) = of_int k / 100"
  by (simp add: round2_def round_half_even_of_int)

text \<open>
  The weighted sum of four integers is a whole number of hundredths, so in exact
  arithmetic rounding to two decimals does not change it.
\<close>

lemma overall_exact:
  "round2 (weighted_sum a b c d) = of_int (25 * a + 20 * b + 25 * c + 30 * d) / 100"
  by (simp only: weighted_sum_hundredths round2_hundredths)

lemma pe_score_of_range: "pe_score_of pe \<in> {1, 2, 5, 8, 10}"
  by (simp add: pe_score_of_def)

lemma volume_score_of_range: "volume_score_of p \<in> {2, 4, 6, 8, 10}"
  by (simp add: volume_score_of_def)

lemma momentum_score_of_range: "momentum_score_of m \<in> {2, 4, 5, 6, 8, 10}"
  by (simp add: momentum_score_of_def)

lemma margin_points_range: "1 \<le> margin_points x \<and> margin_points x \<le> 5"
  by (simp add: margin_points_def)

lemma roe_points_range: "1 \<le> roe_points x \<and> roe_points x \<le> 5"
  by (simp add: roe_points_def)

lemma profit_score_of_range: "2 \<le> profit_score_of a b \<and> profit_score_of a b \<le> 10"
proof -
  obtain x y where "profit_score_of a b = margin_points x + roe_points y"
    by (simp add: profit_score_of_def Let_def)
  then show ?thesis
    using margin_points_range [of x] roe_points_range [of y] by linarith
qed

lemma length_scores [simp]:
  "length (calculate_pe_score df) = length df"
  "length (calculate_volume_score df) = length df"
  "length (calculate_momentum_score df) = length df"
  "length (calculate_profit_score df) = length df"
  by (simp_all add: calculate_pe_score_def calculate_volume_score_def
      calculate_momentum_score_def calculate_profit_score_def rank_pct_def)

lemma nth_pe: "i < length df \<Longrightarrow> calculate_pe_score df ! i = pe_score_of (pe_ratio (df ! i))"
  by (simp add: calculate_pe_score_def)

lemma nth_momentum:
  "i < length df \<Longrightarrow> calculate_momentum_score df ! i = momentum_score_of (momentum_30d (df ! i))"
  by (simp add: calculate_momentum_score_def)

lemma nth_profit:
  "i < length df \<Longrightarrow>
     calculate_profit_score df ! i = profit_score_of (profit_margin (df ! i)) (roe (df ! i))"
  by (simp add: calculate_profit_score_def)

lemma nth_volume_range:
  "i < length df \<Longrightarrow> calculate_volume_score df ! i \<in> {2, 4, 5, 6, 8, 10}"
  using volume_score_of_range [of "rank_pct (map volume df) ! i"]
  by (auto simp add: calculate_volume_score_def rank_pct_def)

lemma length_overall: "length (calculate_overall_score df) = length df"
  by (simp add: calculate_overall_score_def Let_def)

lemma nth_overall:
  "i < length df \<Longrightarrow>
     calculate_overall_score df ! i =
       with_scores (df ! i) (calculate_pe_score df ! i) (calculate_volume_score df ! i)
         (calculate_momentum_score df ! i) (calculate_profit_score df ! i)"
  by (simp add: calculate_overall_score_def Let_def)

lemma with_scores_sel [simp]:
  "pe_score (with_scores r a b c d) = a"
  "volume_score (with_scores r a b c d) = b"
  "momentum_score (with_scores r a b c d) = c"
  "profit_score (with_scores r a b c d) = d"
  "overall_score (with_scores r a b c d) = round2 (weighted_sum a b c d)"
  by (simp_all add: with_scores_def)

lemma overall_column:
  "map overall_score (calculate_overall_score df) =
     map (\<lambda>i. round2 (weighted_sum (calculate_pe_score df ! i) (calculate_volume_score df ! i)
                 (calculate_momentum_score df ! i) (calculate_profit_score df ! i)))
       [0 ..< length df]"
  by (simp add: calculate_overall_score_def Let_def)

lemma scored_row_cases:
  assumes "r \<in> set (calculate_overall_score df)"
  obtains i where "i < length df"
    and "r = with_scores (df ! i) (calculate_pe_score df ! i) (calculate_volume_score df ! i)
               (calculate_momentum_score df ! i) (calculate_profit_score df ! i)"
proof -
  from assms obtain i where "i < length df" and "r = calculate_overall_score df ! i"
    by (auto simp add: in_set_conv_nth length_overall)
  then show thesis using that nth_overall by metis
qed

text \<open>Evaluation of the scores of the example frames.\<close>

lemma best_frame_scores:
  "calculate_pe_score best_frame = [10]" "calculate_volume_score best_frame = [10]"
  "calculate_momentum_score best_frame = [10]" "calculate_profit_score best_frame = [10]"
  by (simp_all add: best_frame_def plain_row_def calculate_pe_score_def pe_score_of_def
      num_le_def num_lt_def num_gt_def isna_def calculate_volume_score_def volume_sum_def
      int64_wrap_def rank_pct_def rank_average_def volume_score_of_def
      calculate_momentum_score_def momentum_score_of_def calculate_profit_score_def
      profit_score_of_def margin_points_def roe_points_def)

lemma mixed_frame_scores:
  "calculate_pe_score mixed_frame = [10, 5, 1]" "calculate_volume_score mixed_frame = [10, 6, 6]"
  "calculate_momentum_score mixed_frame = [10, 4, 5]" "calculate_profit_score mixed_frame = [10, 6, 2]"
  by (simp_all add: mixed_frame_def plain_row_def calculate_pe_score_def pe_score_of_def
      num_le_def num_lt_def num_gt_def isna_def calculate_volume_score_def volume_sum_def
      int64_wrap_def rank_pct_def rank_average_def volume_score_of_def
      calculate_momentum_score_def momentum_score_of_def calculate_profit_score_def
      profit_score_of_def margin_points_def roe_points_def)

subsection \<open>PE score\<close>

text \<open>
  Claim C3. For every row of every frame, \<open>calculate_pe_score\<close> gives 1 when
  \<open>pe_ratio\<close> is missing or at most 0, 10 when it is above 0 and below 15, 8 from 15
  up to but not including 25, 5 from 25 up to but not including 35, and 2 from 35 on.
  The lower bound of each bucket belongs to it: a ratio of exactly 15 scores 8, not 10.
\<close>

theorem pe_buckets:
  assumes "i < length df"
  shows "length (calculate_pe_score df) = length df \<and>
    (pe_ratio (df ! i) = None \<longrightarrow> calculate_pe_score df ! i = 1) \<and>
    (\<forall>pe. pe_ratio (df ! i) = Some pe \<longrightarrow>
       (pe \<le> 0 \<longrightarrow> calculate_pe_score df ! i = 1) \<and>
       (0 < pe \<and> pe < 15 \<longrightarrow> calculate_pe_score df ! i = 10) \<and>
       (15 \<le> pe \<and> pe < 25 \<longrightarrow> calculate_pe_score df ! i = 8) \<and>
       (25 \<le> pe \<and> pe < 35 \<longrightarrow> calculate_pe_score df ! i = 5) \<and>
       (35 \<le> pe \<longrightarrow> calculate_pe_score df ! i = 2) \<and>
       (pe = 15 \<longrightarrow> calculate_pe_score df ! i = 8 \<and> calculate_pe_score df ! i \<noteq> 10))"
  using assms by (simp add: nth_pe pe_score_of_def num_le_def num_lt_def isna_def)

theorem pe_buckets_witness:
  "pe_ratio (pe_rows ! 0) = None \<and> calculate_pe_score pe_rows ! 0 = 1 \<and>
   pe_ratio (pe_rows ! 2) = Some 0 \<and> calculate_pe_score pe_rows ! 2 = 1 \<and>
   pe_ratio (pe_rows ! 3) = Some 10 \<and> calculate_pe_score pe_rows ! 3 = 10 \<and>
   pe_ratio (pe_rows ! 4) = Some 15 \<and> calculate_pe_score pe_rows ! 4 = 8 \<and>
   pe_ratio (pe_rows ! 6) = Some 25 \<and> calculate_pe_score pe_rows ! 6 = 5 \<and>
   pe_ratio (pe_rows ! 7) = Some 35 \<and> calculate_pe_score pe_rows ! 7 = 2"
proof -
  have len: "0 < length pe_rows" "2 < length pe_rows" "3 < length pe_rows"
    "4 < length pe_rows" "6 < length pe_rows" "7 < length pe_rows"
    by (simp_all add: pe_rows_def)
  have cells: "pe_ratio (pe_rows ! 0) = None" "pe_ratio (pe_rows ! 2) = Some 0"
    "pe_ratio (pe_rows ! 3) = Some 10" "pe_ratio (pe_rows ! 4) = Some 15"
    "pe_ratio (pe_rows ! 6) = Some 25" "pe_ratio (pe_rows ! 7) = Some 35"
    by (simp_all add: pe_rows_def plain_row_def)
  show ?thesis
    using pe_buckets [OF len(1)] pe_buckets [OF len(2)] pe_buckets [OF len(3)]
      pe_buckets [OF len(4)] pe_buckets [OF len(5)] pe_buckets [OF len(6)] cells
    by simp
qed

subsection \<open>Ranges of the scores\<close>

text \<open>
  Claim C10. Every row of a scored frame has \<open>pe_score\<close> in {1, 2, 5, 8, 10},
  \<open>volume_score\<close> in {2, 4, 5, 6, 8, 10}, \<open>momentum_score\<close> in {2, 4, 5, 6, 8, 10},
  \<open>profit_score\<close> between 2 and 10, and therefore \<open>overall_score\<close> between 1.75 and 10.
\<close>

theorem scores_in_range:
  assumes "r \<in> set (calculate_overall_score df)"
  shows "pe_score r \<in> {1, 2, 5, 8, 10} \<and>
      volume_score r \<in> {2, 4, 5, 6, 8, 10} \<and>
      momentum_score r \<in> {2, 4, 5, 6, 8, 10} \<and>
      2 \<le> profit_score r \<and> profit_score r \<le> 10 \<and>
      7 / 4 \<le> overall_score r \<and> overall_score r \<le> 10"
proof -
  from assms obtain i where i: "i < length df"
    and rw0: "r = with_scores (df ! i) (calculate_pe_score df ! i) (calculate_volume_score df ! i)
               (calculate_momentum_score df ! i) (calculate_profit_score df ! i)"
    by (rule scored_row_cases)
  define a where "a = calculate_pe_score df ! i"
  define b where "b = calculate_volume_score df ! i"
  define c where "c = calculate_momentum_score df ! i"
  define d where "d = calculate_profit_score df ! i"
  have ra: "a \<in> {1, 2, 5, 8, 10}"
    unfolding a_def using i pe_score_of_range by (simp only: nth_pe)
  have rb: "b \<in> {2, 4, 5, 6, 8, 10}"
    unfolding b_def using i by (rule nth_volume_range)
  have rc: "c \<in> {2, 4, 5, 6, 8, 10}"
    unfolding c_def using i momentum_score_of_range by (simp only: nth_momentum)
  have rd: "2 \<le> d \<and> d \<le> 10"
    unfolding d_def using i profit_score_of_range by (simp only: nth_profit)
  have rw: "r = with_scores (df ! i) a b c d"
    unfolding a_def b_def c_def d_def by (rule rw0)
  have lo: "175 \<le> 25 * a + 20 * b + 25 * c + 30 * d" using ra rb rc rd by auto
  have hi: "25 * a + 20 * b + 25 * c + 30 * d \<le> 1000" using ra rb rc rd by auto
  have ov: "overall_score r = of_int (25 * a + 20 * b + 25 * c + 30 * d) / 100"
    by (simp only: rw with_scores_sel overall_exact)
  have "(175::rat) \<le> of_int (25 * a + 20 * b + 25 * c + 30 * d)"
    using lo by (metis of_int_le_iff of_int_numeral)
  then have lo': "7 / 4 \<le> overall_score r" unfolding ov by simp
  have "of_int (25 * a + 20 * b + 25 * c + 30 * d) \<le> (1000::rat)"
    using hi by (metis of_int_le_iff of_int_numeral)
  then have hi': "overall_score r \<le> 10" unfolding ov by simp
  have "pe_score r \<in> {1, 2, 5, 8, 10}" using ra by (simp add: rw)
  moreover have "volume_score r \<in> {2, 4, 5, 6, 8, 10}" using rb by (simp add: rw)
  moreover have "momentum_score r \<in> {2, 4, 5, 6, 8, 10}" using rc by (simp add: rw)
  moreover have "2 \<le> profit_score r" using rd by (simp add: rw)
  moreover have "profit_score r \<le> 10" using rd by (simp add: rw)
  ultimately show ?thesis using lo' hi' by blast
qed

theorem scores_in_range_witness:
  "calculate_overall_score mixed_frame ! 2 \<in> set (calculate_overall_score mixed_frame) \<and>
   pe_score (calculate_overall_score mixed_frame ! 2) \<in> {1, 2, 5, 8, 10} \<and>
   volume_score (calculate_overall_score mixed_frame ! 2) \<in> {2, 4, 5, 6, 8, 10} \<and>
   momentum_score (calculate_overall_score mixed_frame ! 2) \<in> {2, 4, 5, 6, 8, 10} \<and>
   2 \<le> profit_score (calculate_overall_score mixed_frame ! 2) \<and>
   profit_score (calculate_overall_score mixed_frame ! 2) \<le> 10 \<and>
   7 / 4 \<le> overall_score (calculate_overall_score mixed_frame ! 2) \<and>
   overall_score (calculate_overall_score mixed_frame ! 2) \<le> 10"
proof -
  have "2 < length (calculate_overall_score mixed_frame)"
    by (simp add: length_overall mixed_frame_def)
  then have mem: "calculate_overall_score mixed_frame ! 2 \<in> set (calculate_overall_score mixed_frame)"
    by (rule nth_mem)
  show ?thesis using mem scores_in_range [OF mem] by (rule conjI)
qed

subsection \<open>Weights and overall score\<close>

text \<open>
  Claim C4. The weights are the named dictionary \<open>scoring_weights\<close>: 0.25 for
  \<open>pe_score\<close>, 0.20 for \<open>volume_score\<close>, 0.25 for \<open>momentum_score\<close>, 0.30 for
  \<open>profit_score\<close>; they add up to exactly 1. In every row of a scored frame
  \<open>overall_score\<close> is the weighted sum of the row's four scores rounded to two decimals,
  and a row whose four scores are all 10 has \<open>overall_score\<close> exactly 10.
\<close>

theorem weights_and_overall:
  assumes "r \<in> set (calculate_overall_score df)"
  shows "scoring_weights =
     [(''pe_score'', 1 / 4), (''volume_score'', 1 / 5),
      (''momentum_score'', 1 / 4), (''profit_score'', 3 / 10)] \<and>
   sum_list (map snd scoring_weights) = 1 \<and>
   overall_score r =
     round2 (of_int (pe_score r) * (1 / 4) + of_int (volume_score r) * (1 / 5)
             + of_int (momentum_score r) * (1 / 4) + of_int (profit_score r) * (3 / 10)) \<and>
   (pe_score r = 10 \<and> volume_score r = 10 \<and> momentum_score r = 10 \<and> profit_score r = 10
      \<longrightarrow> overall_score r = 10)"
proof (intro conjI impI)
  show "scoring_weights =
     [(''pe_score'', 1 / 4), (''volume_score'', 1 / 5),
      (''momentum_score'', 1 / 4), (''profit_score'', 3 / 10)]"
    by (simp add: scoring_weights_def)
  show "sum_list (map snd scoring_weights) = 1"
    by (simp add: scoring_weights_def)
next
  from assms obtain i where i: "i < length df"
    and rw: "r = with_scores (df ! i) (calculate_pe_score df ! i) (calculate_volume_score df ! i)
               (calculate_momentum_score df ! i) (calculate_profit_score df ! i)"
    by (rule scored_row_cases)
  have sel: "overall_score r =
      round2 (weighted_sum (pe_score r) (volume_score r) (momentum_score r) (profit_score r))"
    by (simp add: rw)
  show "overall_score r =
        round2 (of_int (pe_score r) * (1 / 4) + of_int (volume_score r) * (1 / 5)
                + of_int (momentum_score r) * (1 / 4) + of_int (profit_score r) * (3 / 10))"
    unfolding sel by (simp add: weighted_sum_def weight_values)
  assume "pe_score r = 10 \<and> volume_score r = 10 \<and> momentum_score r = 10 \<and> profit_score r = 10"
  then show "overall_score r = 10"
    unfolding sel by (simp add: overall_exact)
qed

theorem weights_and_overall_witness:
  "calculate_overall_score best_frame ! 0 \<in> set (calculate_overall_score best_frame) \<and>
   pe_score (calculate_overall_score best_frame ! 0) = 10 \<and>
   volume_score (calculate_overall_score best_frame ! 0) = 10 \<and>
   momentum_score (calculate_overall_score best_frame ! 0) = 10 \<and>
   profit_score (calculate_overall_score best_frame ! 0) = 10 \<and>
   overall_score (calculate_overall_score best_frame ! 0) = 10"
proof -
  have len: "0 < length best_frame" by (simp add: best_frame_def)
  then have "0 < length (calculate_overall_score best_frame)" by (simp only: length_overall)
  then have mem: "calculate_overall_score best_frame ! 0 \<in> set (calculate_overall_score best_frame)"
    by (rule nth_mem)
  have tens: "pe_score (calculate_overall_score best_frame ! 0) = 10"
    "volume_score (calculate_overall_score best_frame ! 0) = 10"
    "momentum_score (calculate_overall_score best_frame ! 0) = 10"
    "profit_score (calculate_overall_score best_frame ! 0) = 10"
    by (simp_all add: nth_overall [OF len] best_frame_scores)
  show ?thesis using mem tens weights_and_overall [OF mem] by blast
qed

subsection \<open>Scoring twice\<close>

lemma score_unscored:
  "calculate_pe_score (map unscored df) = calculate_pe_score df"
  "calculate_volume_score (map unscored df) = calculate_volume_score df"
  "calculate_momentum_score (map unscored df) = calculate_momentum_score df"
  "calculate_profit_score (map unscored df) = calculate_profit_score df"
  by (simp_all add: calculate_pe_score_def calculate_volume_score_def
      calculate_momentum_score_def calculate_profit_score_def unscored_def comp_def)

lemma with_scores_unscored: "with_scores (unscored r) a b c d = with_scores r a b c d"
  by (simp add: with_scores_def unscored_def)

lemma unscored_with_scores: "unscored (with_scores r a b c d) = unscored r"
  by (simp add: with_scores_def unscored_def)

lemma overall_unscored: "calculate_overall_score (map unscored df) = calculate_overall_score df"
  by (simp add: calculate_overall_score_def Let_def score_unscored with_scores_unscored)

lemma unscored_overall: "map unscored (calculate_overall_score df) = map unscored df"
  by (rule nth_equalityI) (simp_all add: length_overall nth_overall unscored_with_scores)

text \<open>
  Claim C8. The scored frame is a function of the unscored fields of the whole frame:
  two frames whose rows have the same unscored fields, whatever scores or other data
  their rows already carry, are scored to the same frame; in particular scoring a
  frame that has been scored before (as the second of two calls on the same frame
  does, the first having written its columns into it) gives the first result again.
\<close>

theorem scoring_deterministic:
  "calculate_overall_score (calculate_overall_score df) = calculate_overall_score df \<and>
   (map unscored df = map unscored df' \<longrightarrow>
      calculate_overall_score df = calculate_overall_score df')"
proof (intro conjI impI)
  have "calculate_overall_score (calculate_overall_score df)
          = calculate_overall_score (map unscored (calculate_overall_score df))"
    by (simp only: overall_unscored)
  also have "\<dots> = calculate_overall_score (map unscored df)"
    by (simp only: unscored_overall)
  also have "\<dots> = calculate_overall_score df"
    by (simp only: overall_unscored)
  finally show "calculate_overall_score (calculate_overall_score df) = calculate_overall_score df" .
next
  assume eq: "map unscored df = map unscored df'"
  have "calculate_overall_score df = calculate_overall_score (map unscored df)"
    by (simp only: overall_unscored)
  also have "\<dots> = calculate_overall_score (map unscored df')"
    by (simp only: eq)
  also have "\<dots> = calculate_overall_score df'"
    by (simp only: overall_unscored)
  finally show "calculate_overall_score df = calculate_overall_score df'" .
qed

theorem scoring_deterministic_witness:
  "map unscored mixed_frame = map unscored stale_frame \<and>
   calculate_overall_score mixed_frame = calculate_overall_score stale_frame \<and>
   map overall_score (calculate_overall_score stale_frame) = [10, 21 / 4, 33 / 10]"
proof -
  have same: "map unscored mixed_frame = map unscored stale_frame"
    by (simp add: stale_frame_def mixed_frame_def unscored_def)
  have eq: "calculate_overall_score mixed_frame = calculate_overall_score stale_frame"
    using scoring_deterministic [of mixed_frame stale_frame] same by blast
  have len: "length mixed_frame = Suc (Suc (Suc 0))" by (simp add: mixed_frame_def)
  have "map overall_score (calculate_overall_score mixed_frame) = [10, 21 / 4, 33 / 10]"
    by (simp add: overall_column len mixed_frame_scores overall_exact)
  then show ?thesis using same eq by simp
qed

subsection \<open>Equal volumes\<close>

lemma int64_wrap_id: "- (2 ^ 63) \<le> i \<Longrightarrow> i < 2 ^ 63 \<Longrightarrow> int64_wrap i = i"
  by (simp add: int64_wrap_def)

lemma equal_volumes_replicate:
  "\<forall>r \<in> set df. volume r = v \<Longrightarrow> map volume df = replicate (length df) v"
  by (induction df) simp_all

lemma rank_average_replicate:
  "rank_average (replicate n v) v = (of_nat n + 1) / 2"
  by (simp add: rank_average_def)

lemma rank_pct_replicate:
  "rank_pct (replicate n v) = replicate n ((of_nat n + 1) / (2 * of_nat n))"
  by (simp add: rank_pct_def rank_average_replicate map_replicate_const)

lemma volume_score_of_equal:
  assumes "0 < n"
  shows "volume_score_of ((of_nat n + 1) / (2 * of_nat n))
           = (if n = 1 then 10 else if n \<le> 5 then 8 else 6)"
proof -
  have pos: "(0::rat) < 2 * of_nat n" using assms by simp
  have a: "(8 / 10 \<le> (of_nat n + 1) / (2 * of_nat n :: rat)) = (n = 1)"
  proof -
    have "(8 / 10 \<le> (of_nat n + 1) / (2 * of_nat n :: rat))
            = (8 / 10 * (2 * of_nat n) \<le> (of_nat n + 1 :: rat))"
      using pos by (simp only: pos_le_divide_eq)
    also have "\<dots> = ((of_nat (8 * n) :: rat) \<le> of_nat (5 * n + 5))"
      by (simp add: field_simps)
    also have "\<dots> = (8 * n \<le> 5 * n + 5)" by (simp only: of_nat_le_iff)
    also have "\<dots> = (n = 1)" using assms by auto
    finally show ?thesis .
  qed
  have b: "(6 / 10 \<le> (of_nat n + 1) / (2 * of_nat n :: rat)) = (n \<le> 5)"
  proof -
    have "(6 / 10 \<le> (of_nat n + 1) / (2 * of_nat n :: rat))
            = (6 / 10 * (2 * of_nat n) \<le> (of_nat n + 1 :: rat))"
      using pos by (simp only: pos_le_divide_eq)
    also have "\<dots> = ((of_nat (6 * n) :: rat) \<le> of_nat (5 * n + 5))"
      by (simp add: field_simps)
    also have "\<dots> = (6 * n \<le> 5 * n + 5)" by (simp only: of_nat_le_iff)
    also have "\<dots> = (n \<le> 5)" by auto
    finally show ?thesis .
  qed
  have c: "4 / 10 \<le> (of_nat n + 1) / (2 * of_nat n :: rat)"
  proof -
    have "(4 / 10 \<le> (of_nat n + 1) / (2 * of_nat n :: rat))
            = (4 / 10 * (2 * of_nat n) \<le> (of_nat n + 1 :: rat))"
      using pos by (simp only: pos_le_divide_eq)
    also have "\<dots> = ((of_nat (4 * n) :: rat) \<le> of_nat (5 * n + 5))"
      by (simp add: field_simps)
    also have "\<dots> = (4 * n \<le> 5 * n + 5)" by (simp only: of_nat_le_iff)
    also have "\<dots> = True" by auto
    finally show ?thesis by simp
  qed
  show ?thesis
    unfolding volume_score_of_def a b using c by auto
qed

text \<open>
  Claim C1, as the code has it. In a frame whose \<open>n \<ge> 1\<close> volumes are all the same
  number, not 0 (and small enough for the 64-bit sum not to wrap), every row's
  percentile rank is \<open>(n + 1) / (2 n)\<close>, the mean of the tied positions divided by
  \<open>n\<close>, which is 1 only for a single row; \<open>calculate_volume_score\<close> gives every row 10
  when \<open>n = 1\<close>, 8 when \<open>n\<close> is 2 to 5, and 6 when \<open>n\<close> is 6 or more.
\<close>

theorem equal_volumes_score:
  assumes "df \<noteq> []" and "\<forall>r \<in> set df. volume r = v" and "v \<noteq> 0"
    and "- (2 ^ 63) \<le> int (length df) * v" and "int (length df) * v < 2 ^ 63"
  shows "rank_pct (map volume df)
           = replicate (length df) ((of_nat (length df) + 1) / (2 * of_nat (length df))) \<and>
         calculate_volume_score df
           = replicate (length df) (if length df = 1 then 10 else if length df \<le> 5 then 8 else 6)"
proof -
  let ?n = "length df"
  have n: "0 < ?n" using assms(1) by simp
  have vols: "map volume df = replicate ?n v" using assms(2) by (rule equal_volumes_replicate)
  have "sum_list (map volume df) = int ?n * v" by (simp add: vols sum_list_replicate)
  then have "volume_sum (map volume df) = int ?n * v"
    using assms(4,5) by (simp add: volume_sum_def int64_wrap_id)
  then have nz: "volume_sum (map volume df) \<noteq> 0" using n assms(3) by simp
  have pct: "rank_pct (map volume df) = replicate ?n ((of_nat ?n + 1) / (2 * of_nat ?n))"
    by (simp only: vols rank_pct_replicate)
  have "calculate_volume_score df = map volume_score_of (rank_pct (map volume df))"
    using nz by (simp add: calculate_volume_score_def)
  also have "\<dots> = replicate ?n (volume_score_of ((of_nat ?n + 1) / (2 * of_nat ?n)))"
    by (simp only: pct map_replicate)
  also have "\<dots> = replicate ?n (if ?n = 1 then 10 else if ?n \<le> 5 then 8 else 6)"
    using n by (simp only: volume_score_of_equal)
  finally show ?thesis using pct by simp
qed

theorem equal_volumes_score_witness:
  "map volume two_equal_volumes = [100, 100] \<and>
   rank_pct (map volume two_equal_volumes) = [3 / 4, 3 / 4] \<and>
   calculate_volume_score two_equal_volumes = [8, 8] \<and>
   map volume six_equal_volumes = [100, 100, 100, 100, 100, 100] \<and>
   rank_pct (map volume six_equal_volumes) = [7 / 12, 7 / 12, 7 / 12, 7 / 12, 7 / 12, 7 / 12] \<and>
   calculate_volume_score six_equal_volumes = [6, 6, 6, 6, 6, 6]"
proof -
  have two: "two_equal_volumes \<noteq> []" "\<forall>r \<in> set two_equal_volumes. volume r = 100"
    "(100::int) \<noteq> 0" "- (2 ^ 63) \<le> int (length two_equal_volumes) * 100"
    "int (length two_equal_volumes) * 100 < 2 ^ 63"
    by (simp_all add: two_equal_volumes_def plain_row_def)
  have six: "six_equal_volumes \<noteq> []" "\<forall>r \<in> set six_equal_volumes. volume r = 100"
    "(100::int) \<noteq> 0" "- (2 ^ 63) \<le> int (length six_equal_volumes) * 100"
    "int (length six_equal_volumes) * 100 < 2 ^ 63"
    by (simp_all add: six_equal_volumes_def plain_row_def)
  have len2: "length two_equal_volumes = Suc (Suc 0)" by (simp add: two_equal_volumes_def)
  have len6: "length six_equal_volumes = Suc (Suc (Suc (Suc (Suc (Suc 0)))))"
    by (simp add: six_equal_volumes_def)
  have vols2: "map volume two_equal_volumes = [100, 100]"
    by (simp add: two_equal_volumes_def plain_row_def)
  have vols6: "map volume six_equal_volumes = [100, 100, 100, 100, 100, 100]"
    by (simp add: six_equal_volumes_def plain_row_def)
  have r2: "rank_pct (map volume two_equal_volumes) = [3 / 4, 3 / 4] \<and>
      calculate_volume_score two_equal_volumes = [8, 8]"
    using equal_volumes_score [OF two] by (simp add: len2)
  have r6: "rank_pct (map volume six_equal_volumes) = [7 / 12, 7 / 12, 7 / 12, 7 / 12, 7 / 12, 7 / 12] \<and>
      calculate_volume_score six_equal_volumes = [6, 6, 6, 6, 6, 6]"
    using equal_volumes_score [OF six] by (simp add: len6)
  show ?thesis using vols2 vols6 r2 r6 by blast
qed

text \<open>
  Two rows with volume 100 each: both have percentile rank 0.75, not 1, and score 8,
  not 10.
\<close>

theorem equal_volumes_counterexample:
  "map volume two_equal_volumes = [100, 100] \<and>
   rank_pct (map volume two_equal_volumes) = [3 / 4, 3 / 4] \<and>
   calculate_volume_score two_equal_volumes = [8, 8]"
  by (simp add: two_equal_volumes_def plain_row_def calculate_volume_score_def rank_pct_def
      rank_average_def volume_score_of_def volume_sum_def int64_wrap_def)

section \<open>Properties of the views\<close>

subsection \<open>Filter by criteria\<close>




subsection \<open>Top N\<close>














subsection \<open>Errors of top N\<close>




subsection \<open>Sector analysis\<close>



















section \<open>Properties of the data fetcher\<close>











end
